theory Spec2Isabelle
  imports Complex_Main "HOL-Library.Log_Nat"
begin

section \<open>Data exchanged with the node\<close>

text \<open>
  A mosaic id as the node reports it: the namespace and the mosaic name.
\<close>

record mosaic_id =
  namespaceId :: string
  name :: string

text \<open>
  The formatter of the SDK (\<^verbatim>\<open>utils.format.mosaicIdToName\<close>): namespace, a colon, the name.
  The explorer reaches it as \<^verbatim>\<open>this.api.SDK.utils.format.mosaicIdToName\<close> and as
  \<^verbatim>\<open>NEM.utils.format.mosaicIdToName\<close>.
\<close>

definition mosaicIdToName :: "mosaic_id \<Rightarrow> string" where
  "mosaicIdToName m = namespaceId m @ '':'' @ name m"

text \<open>The levy of a mosaic; the explorer reads \<^verbatim>\<open>levy.recipient\<close> only.\<close>

record levy_config =
  recipient :: string
  fee :: int

text \<open>A raw mosaic definition of a namespace; the explorer reads its \<^verbatim>\<open>id\<close> only.\<close>

record mosaicDefinition =
  id_md :: mosaic_id
  properties :: "(string \<times> string) list"
  levy_md :: "levy_config option"

text \<open>One balance of an account: \<^verbatim>\<open>{mosaicId, quantity}\<close>.\<close>

record ownedMosaic =
  mosaicId :: mosaic_id
  quantity :: int

text \<open>
  A response object of the node. Its \<^verbatim>\<open>data\<close> field may be missing (\<open>None\<close>); the
  explorer reads it as \<^verbatim>\<open>response.data || []\<close>.
\<close>

record 'a response =
  data :: "'a list option"

definition data_or_empty :: "'a response \<Rightarrow> 'a list" where
  "data_or_empty r = (case data r of None \<Rightarrow> [] | Some xs \<Rightarrow> xs)"

text \<open>The two requests the explorer sends, with the argument it passes beside the node.\<close>

datatype request = MosaicDefinitions string | AccountMosaicsOwned string

text \<open>
  The node-query collaborator \<^verbatim>\<open>this.api\<close>. Each request either is rejected with a reason
  (\<open>Inl\<close>) or resolves to a response. The answer may depend on the requests sent before, as
  balances on chain change between calls.
\<close>

record NIS =
  mosaicDefinitions :: "request list \<Rightarrow> string \<Rightarrow> string + mosaicDefinition response"
  owned :: "request list \<Rightarrow> string \<Rightarrow> string + ownedMosaic response"

section \<open>The parameters object\<close>

text \<open>
  Modelled from the spec: \<^verbatim>\<open>core/dim-parameters.js\<close> (class \<^verbatim>\<open>DIMParameters\<close>) is
  not among the sources. The spec describes the resolved definition of an asset as its total
  supply, its divisibility and an optional levy configuration.
\<close>

record assetDefinition =
  totalSupply :: int
  divisibility :: nat
  levy :: "levy_config option"

text \<open>
  Modelled from the spec: the registry holds the cache \<^verbatim>\<open>mosaicParameters\<close> from
  identifiers to resolved definitions, and translates a raw definition into a resolved one
  (\<^verbatim>\<open>fromMosaicDefinition\<close>). What the constructor puts in the cache and how the translation
  works are left open: both are fields of the record. \<^verbatim>\<open>getCoin().creator\<close> is a constant
  lookup that cannot fail.
\<close>

record DIMParameters =
  mosaicParameters :: "string \<rightharpoonup> assetDefinition"
  fromMosaicDefinition :: "mosaicDefinition \<Rightarrow> assetDefinition"

section \<open>The explorer\<close>

text \<open>
  A promise is rejected either by a \<^verbatim>\<open>TypeError\<close> raised in the explorer's own code (a
  property read on \<^verbatim>\<open>undefined\<close>) or with the reason the node-query collaborator gave.
\<close>

datatype error = TypeError | Rejected string

text \<open>
  The explorer object. The constructor assigns \<^verbatim>\<open>this.parameters\<close> and \<^verbatim>\<open>this.api\<close>.
  \<^verbatim>\<open>getCurrency\<close> also reads \<^verbatim>\<open>this.mosaicParameters\<close>, a property of the explorer
  itself, which is \<^verbatim>\<open>undefined\<close> (\<open>None\<close>) unless somebody assigned it. \<open>sent\<close> is the
  trace of the requests sent to the node so far.
\<close>

record DIMExplorer =
  this_mosaicParameters :: "(string \<rightharpoonup> assetDefinition) option"
  parameters :: DIMParameters
  api :: NIS
  sent :: "request list"

text \<open>\<^verbatim>\<open>new DIMExplorer(NIS)\<close>; \<open>ps\<close> is the value of \<^verbatim>\<open>new DIMParameters()\<close>.\<close>

definition DIMExplorer_new :: "NIS \<Rightarrow> DIMParameters \<Rightarrow> DIMExplorer" where
  "DIMExplorer_new nis ps =
     \<lparr>this_mosaicParameters = None, parameters = ps, api = nis, sent = []\<rparr>"

subsection \<open>The regular expression \<^verbatim>\<open>/(.*):(.*)/\<close>\<close>

text \<open>
  A dot matches every character but a line terminator. Both groups are greedy, so in the
  first line that has a colon the match is the whole line, the first group is what stands
  before its last colon and the second group what stands after it.
\<close>

definition line_terminator :: "char \<Rightarrow> bool" where
  "line_terminator c = (c = CHR 0x0A \<or> c = CHR 0x0D)"

definition group1 :: "string \<Rightarrow> string" where
  "group1 l = rev (tl (dropWhile (\<lambda>c. c \<noteq> CHR '':'') (rev l)))"

definition group2 :: "string \<Rightarrow> string" where
  "group2 l = rev (takeWhile (\<lambda>c. c \<noteq> CHR '':'') (rev l))"


text \<open>
  \<^verbatim>\<open>s.replace(/(.*):(.*)/, "$n")\<close>: the leftmost match is replaced by group \<open>g\<close> of it;
  a string with no match is returned as it is.
\<close>

function replace_pattern :: "(string \<Rightarrow> string) \<Rightarrow> string \<Rightarrow> string" where
  "replace_pattern g s =
     (let l = takeWhile (\<lambda>c. \<not> line_terminator c) s;
          rest = dropWhile (\<lambda>c. \<not> line_terminator c) s
      in if CHR '':'' \<in> set l then g l @ rest
         else (case rest of [] \<Rightarrow> s | t # ts \<Rightarrow> l @ t # replace_pattern g ts))"
  by pat_completeness auto
termination
proof (relation "measure (\<lambda>(g, s). length s)")
  show "wf (measure (\<lambda>(g, s). length s))" by simp
next
  fix g :: "string \<Rightarrow> string" and s l rest :: string and t :: char and ts :: string
  assume "rest = dropWhile (\<lambda>c. \<not> line_terminator c) s" and "rest = t # ts"
  then have "length (t # ts) \<le> length s"
    by (metis length_dropWhile_le)
  then show "((g, ts), (g, s)) \<in> measure (\<lambda>(g, s). length s)" by simp
qed

declare replace_pattern.simps [simp del]

subsection \<open>getCurrency\<close>

text \<open>
  The loop over the definitions of the namespace: the first definition whose formatted id
  is the requested identifier is translated, stored in the cache of the parameters object
  under the identifier, and returned; with no such definition the result is \<^verbatim>\<open>null\<close>.
\<close>

fun scan_definitions ::
  "DIMExplorer \<Rightarrow> string \<Rightarrow> mosaicDefinition list \<Rightarrow> (error + assetDefinition option) \<times> DIMExplorer"
where
  "scan_definitions this currency [] = (Inr None, this)"
| "scan_definitions this currency (d # ds) =
     (if mosaicIdToName (id_md d) \<noteq> currency then scan_definitions this currency ds
      else let params = fromMosaicDefinition (parameters this) d
           in (Inr (Some params),
               this\<lparr>parameters := (parameters this)
                 \<lparr>mosaicParameters := (mosaicParameters (parameters this))(currency \<mapsto> params)\<rparr>\<rparr>))"

definition getCurrency ::
  "DIMExplorer \<Rightarrow> string \<Rightarrow> (error + assetDefinition option) \<times> DIMExplorer"
where
  "getCurrency this currency =
     (case this_mosaicParameters this of
        None \<Rightarrow> (Inl TypeError, this)
      | Some own \<Rightarrow>
          (case own currency of
             Some cached \<Rightarrow> (Inr (Some cached), this)
           | None \<Rightarrow>
               let ns = replace_pattern group1 currency;
                   mos = replace_pattern group2 currency;
                   this' = this\<lparr>sent := sent this @ [MosaicDefinitions ns]\<rparr>
               in (case mosaicDefinitions (api this) (sent this) ns of
                     Inl reason \<Rightarrow> (Inl (Rejected reason), this')
                   | Inr response \<Rightarrow> scan_definitions this' currency (data_or_empty response))))"

subsection \<open>getTotalAvailableLevyAmount\<close>

fun scan_mosaics :: "ownedMosaic list \<Rightarrow> int" where
  "scan_mosaics [] = 0"
| "scan_mosaics (b # bs) =
     (if mosaicIdToName (mosaicId b) \<noteq> ''dim:coin'' then scan_mosaics bs else quantity b)"

definition getTotalAvailableLevyAmount :: "DIMExplorer \<Rightarrow> (error + int) \<times> DIMExplorer" where
  "getTotalAvailableLevyAmount self =
     (case mosaicParameters (parameters self) ''dim:coin'' of
        None \<Rightarrow> (Inl TypeError, self)
      | Some coin \<Rightarrow>
          (case levy coin of
             None \<Rightarrow> (Inl TypeError, self)
           | Some l \<Rightarrow>
               let address = recipient l;
                   self' = self\<lparr>sent := sent self @ [AccountMosaicsOwned address]\<rparr>
               in (case owned (api self) (sent self) address of
                     Inl reason \<Rightarrow> (Inl (Rejected reason), self')
                   | Inr response \<Rightarrow> (Inr (scan_mosaics (data_or_empty response)), self'))))"

subsection \<open>getTotalHoldersShareLevyAmount\<close>

text \<open>
  \<^verbatim>\<open>Math.ceil(0.3 * amount)\<close> is computed on IEEE 754 doubles. The literal \<^verbatim>\<open>0.3\<close> is the
  double \<open>5404319552844595 / 2 ^ 54\<close>. For an integer amount that is a double itself, the
  product is the exact product rounded to 53 significant bits, to the nearest and to even
  on a tie. \<open>round_to_grid s n\<close> rounds \<open>n\<close> to a multiple of \<open>2 ^ s\<close> that way, and
  \<open>significand_shift n\<close> is the number of low bits a positive \<open>n\<close> has beyond 53. The
  exponent range of a double plays no role: a product of \<open>0.3\<close> with a nonzero integer
  is far from the subnormal numbers, and amounts near \<open>2 ^ 1024\<close> are out of scope.
\<close>

definition round_to_grid :: "nat \<Rightarrow> int \<Rightarrow> int" where
  "round_to_grid s n =
     (let q = n div 2 ^ s; r = n mod 2 ^ s
      in if 2 ^ s < 2 * r \<or> (2 * r = 2 ^ s \<and> odd q) then (q + 1) * 2 ^ s else q * 2 ^ s)"

definition significand_shift :: "int \<Rightarrow> nat" where
  "significand_shift n = nat (bitlen n - 53)"

text \<open>The double nearest to \<open>n / 2 ^ 54\<close>, as its numerator over \<open>2 ^ 54\<close>.\<close>

definition round_double :: "int \<Rightarrow> int" where
  "round_double n = sgn n * round_to_grid (significand_shift \<bar>n\<bar>) \<bar>n\<bar>"

text \<open>\<^verbatim>\<open>0.3 * amount\<close>, the double as a rational number.\<close>

definition times_0_3 :: "int \<Rightarrow> rat" where
  "times_0_3 amount = of_int (round_double (5404319552844595 * amount)) / 2 ^ 54"

definition Math_ceil :: "rat \<Rightarrow> int" where
  "Math_ceil x = \<lceil>x\<rceil>"

definition thirtyPercent :: "int \<Rightarrow> int" where
  "thirtyPercent amount = Math_ceil (times_0_3 amount)"

definition getTotalHoldersShareLevyAmount :: "DIMExplorer \<Rightarrow> (error + int) \<times> DIMExplorer" where
  "getTotalHoldersShareLevyAmount self =
     (case getTotalAvailableLevyAmount self of
        (Inl e, self') \<Rightarrow> (Inl e, self')
      | (Inr hundredPercentLevyAmount, self') \<Rightarrow>
          (Inr (thirtyPercent hundredPercentLevyAmount), self'))"

subsection \<open>getTotalCirculatingSupply\<close>

text \<open>
  Modelled from the spec: \<^verbatim>\<open>getCoin\<close>, a method of the absent class \<^verbatim>\<open>DIMParameters\<close>, is
  a constant lookup that cannot fail. The creator it gives and the address computed from
  the creator are not used afterwards, so the two statements leave no trace in the model.
  A resolved definition is an object, so \<^verbatim>\<open>!parameters\<close> holds for \<^verbatim>\<open>null\<close> only.
\<close>

definition getTotalCirculatingSupply ::
  "DIMExplorer \<Rightarrow> string \<Rightarrow> (error + int) \<times> DIMExplorer"
where
  "getTotalCirculatingSupply self currency =
     (case getCurrency self currency of
        (Inl e, self') \<Rightarrow> (Inl e, self')
      | (Inr None, self') \<Rightarrow> (Inr 0, self')
      | (Inr (Some params), self') \<Rightarrow> (Inr (totalSupply params), self'))"

subsection \<open>The command line: \<^verbatim>\<open>--totalSupply\<close>\<close>



subsection \<open>Sequences of calls\<close>




subsection \<open>Concrete nodes and explorers\<close>

text \<open>
  The inputs at which the theorems below are evaluated: the mosaic \<^verbatim>\<open>dim:coin\<close> with a
  levy, a parameters object that knows it, a node whose namespace \<^verbatim>\<open>dim\<close> holds
  \<^verbatim>\<open>dim:coin\<close> only and whose accounts own the balances \<open>bs\<close>, a node that rejects every
  request, and a node whose responses have no \<^verbatim>\<open>data\<close> field.
\<close>

definition coin_id :: mosaic_id where
  "coin_id = \<lparr>namespaceId = ''dim'', name = ''coin''\<rparr>"

definition token_id :: mosaic_id where
  "token_id = \<lparr>namespaceId = ''dim'', name = ''token''\<rparr>"

definition coin_levy :: levy_config where
  "coin_levy = \<lparr>recipient = ''NCGGLVO2G3CUACVI5GNX2KRBJSQCN4RDL2ZWJ4DP'', fee = 10\<rparr>"

definition coin_definition :: assetDefinition where
  "coin_definition = \<lparr>totalSupply = 9000000000000000, divisibility = 6, levy = Some coin_levy\<rparr>"

definition coin_raw :: mosaicDefinition where
  "coin_raw = \<lparr>id_md = coin_id, properties = [(''divisibility'', ''6'')], levy_md = Some coin_levy\<rparr>"

definition example_parameters :: DIMParameters where
  "example_parameters =
     \<lparr>mosaicParameters = [''dim:coin'' \<mapsto> coin_definition],
      fromMosaicDefinition =
        (\<lambda>d. \<lparr>totalSupply = 9000000000000000, divisibility = 6, levy = levy_md d\<rparr>)\<rparr>"

definition example_node :: "ownedMosaic list \<Rightarrow> NIS" where
  "example_node bs =
     \<lparr>mosaicDefinitions = (\<lambda>before ns. Inr \<lparr>data = Some [coin_raw]\<rparr>),
      owned = (\<lambda>before address. Inr \<lparr>data = Some bs\<rparr>)\<rparr>"

definition rejecting_node :: "string \<Rightarrow> NIS" where
  "rejecting_node reason =
     \<lparr>mosaicDefinitions = (\<lambda>before ns. Inl reason), owned = (\<lambda>before address. Inl reason)\<rparr>"

definition dataless_node :: NIS where
  "dataless_node =
     \<lparr>mosaicDefinitions = (\<lambda>before ns. Inr \<lparr>data = None\<rparr>),
      owned = (\<lambda>before address. Inr \<lparr>data = None\<rparr>)\<rparr>"



text \<open>
  An explorer on which a caller has assigned an empty object to the property
  \<^verbatim>\<open>mosaicParameters\<close> after construction; nothing in the sources does so.
\<close>

definition assigned_explorer :: "NIS \<Rightarrow> DIMExplorer" where
  "assigned_explorer nis =
     (DIMExplorer_new nis example_parameters)\<lparr>this_mosaicParameters := Some Map.empty\<rparr>"

text \<open>An explorer as the command builds it, on the example node.\<close>

definition fresh_explorer :: "ownedMosaic list \<Rightarrow> DIMExplorer" where
  "fresh_explorer bs = DIMExplorer_new (example_node bs) example_parameters"

section \<open>Rounding to a double\<close>

lemma grid_decompose:
  fixes n :: int
  shows "n = (n div 2 ^ s) * 2 ^ s + n mod 2 ^ s" and "0 \<le> n mod 2 ^ s" and "n mod 2 ^ s < 2 ^ s"
  by (simp_all only: div_mult_mod_eq pos_mod_sign pos_mod_bound zero_less_power zero_less_numeral)

lemma grid_quotient_less:
  fixes n k :: int
  assumes "n < k * 2 ^ s"
  shows "n div 2 ^ s < k"
proof (rule ccontr)
  assume "\<not> n div 2 ^ s < k"
  then have "k * 2 ^ s \<le> (n div 2 ^ s) * 2 ^ s"
    by (intro mult_right_mono) simp_all
  then show False
    using assms grid_decompose [of n s] by linarith
qed

lemma grid_quotient_ge:
  fixes n k :: int
  assumes "k * 2 ^ s \<le> n"
  shows "k \<le> n div 2 ^ s"
proof (rule ccontr)
  assume "\<not> k \<le> n div 2 ^ s"
  then have "n div 2 ^ s + 1 \<le> k" by simp
  then have "(n div 2 ^ s + 1) * 2 ^ s \<le> k * 2 ^ s"
    by (intro mult_right_mono) simp_all
  then have "(n div 2 ^ s) * 2 ^ s + 2 ^ s \<le> k * 2 ^ s"
    by (simp only: distrib_right mult_1)
  then show False
    using assms grid_decompose [of n s] by linarith
qed

lemma round_to_grid_lower: "(n div 2 ^ s) * 2 ^ s \<le> round_to_grid s n"
  by (simp add: round_to_grid_def Let_def)

lemma round_to_grid_upper: "round_to_grid s n \<le> (n div 2 ^ s + 1) * 2 ^ s"
  by (simp add: round_to_grid_def Let_def)

lemma round_to_grid_exact: "n mod 2 ^ s = 0 \<Longrightarrow> round_to_grid s n = n"
  using grid_decompose(1) [of n s] by (simp add: round_to_grid_def Let_def)

lemma round_to_grid_le:
  assumes "G mod 2 ^ s = 0" and "n \<le> G"
  shows "round_to_grid s n \<le> G"
proof (cases "n = G")
  case True
  then show ?thesis using assms(1) by (simp add: round_to_grid_exact)
next
  case False
  then have lt: "n < G" using assms(2) by simp
  have k: "G = (G div 2 ^ s) * 2 ^ s" using assms(1) grid_decompose(1) [of G s] by simp
  have "n div 2 ^ s < G div 2 ^ s"
    using lt k grid_quotient_less [of n "G div 2 ^ s" s] by simp
  then have "(n div 2 ^ s + 1) * 2 ^ s \<le> (G div 2 ^ s) * 2 ^ s"
    by (intro mult_right_mono) simp_all
  then show ?thesis using round_to_grid_upper [of s n] k by linarith
qed

lemma round_to_grid_ge:
  assumes "G mod 2 ^ s = 0" and "G \<le> n"
  shows "G \<le> round_to_grid s n"
proof -
  have k: "G = (G div 2 ^ s) * 2 ^ s" using assms(1) grid_decompose(1) [of G s] by simp
  have "G div 2 ^ s \<le> n div 2 ^ s"
    using assms(2) by (simp add: zdiv_mono1)
  then have "(G div 2 ^ s) * 2 ^ s \<le> (n div 2 ^ s) * 2 ^ s"
    by (intro mult_right_mono) simp_all
  then show ?thesis using round_to_grid_lower [of n s] k by linarith
qed

lemma round_to_grid_mono:
  assumes "n1 \<le> n2"
  shows "round_to_grid s n1 \<le> round_to_grid s n2"
proof (cases "n1 div 2 ^ s = n2 div 2 ^ s")
  case True
  have "n2 = (n1 div 2 ^ s) * 2 ^ s + n2 mod 2 ^ s"
    using grid_decompose(1) [of n2 s] by (simp only: True)
  then have "n1 mod 2 ^ s \<le> n2 mod 2 ^ s"
    using assms grid_decompose(1) [of n1 s] by linarith
  then show ?thesis using True
    by (auto simp add: round_to_grid_def Let_def)
next
  case False
  have "n1 div 2 ^ s \<le> n2 div 2 ^ s" using assms by (simp add: zdiv_mono1)
  then have "n1 div 2 ^ s + 1 \<le> n2 div 2 ^ s" using False by simp
  then have "(n1 div 2 ^ s + 1) * 2 ^ s \<le> (n2 div 2 ^ s) * 2 ^ s"
    by (intro mult_right_mono) simp_all
  then show ?thesis
    using round_to_grid_upper [of s n1] round_to_grid_lower [of n2 s] by linarith
qed

lemma round_to_grid_error: "2 * \<bar>round_to_grid s n - n\<bar> \<le> 2 ^ s"
proof -
  let ?q = "n div 2 ^ s" and ?r = "n mod 2 ^ s"
  have n: "n = ?q * 2 ^ s + ?r" by (rule grid_decompose)
  have r: "0 \<le> ?r" "?r < 2 ^ s" by (rule grid_decompose)+
  show ?thesis
  proof (cases "2 ^ s < 2 * ?r \<or> (2 * ?r = 2 ^ s \<and> odd ?q)")
    case True
    then have "round_to_grid s n = (?q + 1) * 2 ^ s" by (simp add: round_to_grid_def Let_def)
    then have "round_to_grid s n - n = 2 ^ s - ?r"
      using n by (simp add: algebra_simps)
    moreover have "2 ^ s \<le> 2 * ?r" using True by linarith
    moreover have "\<And>d r x :: int. x = d - r \<Longrightarrow> d \<le> 2 * r \<Longrightarrow> r < d \<Longrightarrow> 2 * \<bar>x\<bar> \<le> d"
      by linarith
    ultimately show ?thesis using r by blast
  next
    case False
    then have "round_to_grid s n = ?q * 2 ^ s" by (simp add: round_to_grid_def Let_def)
    then have "round_to_grid s n - n = - ?r"
      using n by (simp add: algebra_simps)
    moreover have "2 * ?r \<le> 2 ^ s" using False by linarith
    moreover have "\<And>d r x :: int. x = - r \<Longrightarrow> 2 * r \<le> d \<Longrightarrow> 0 \<le> r \<Longrightarrow> 2 * \<bar>x\<bar> \<le> d"
      by linarith
    ultimately show ?thesis using r by blast
  qed
qed

lemma significand_shift_le_iff: "significand_shift n \<le> k \<longleftrightarrow> n < 2 ^ (k + 53)"
proof -
  have "significand_shift n \<le> k \<longleftrightarrow> bitlen n \<le> int k + 53"
    by (auto simp add: significand_shift_def)
  also have "\<dots> \<longleftrightarrow> n < 2 ^ nat (int k + 53)"
    by (simp add: bitlen_le_iff_power)
  also have "nat (int k + 53) = k + 53" by simp
  finally show ?thesis .
qed

lemma significand_shift_upper: "n < 2 ^ (significand_shift n + 53)"
  using significand_shift_le_iff [of n "significand_shift n"] by simp

lemma significand_shift_lower:
  assumes "0 < significand_shift n"
  shows "2 ^ (significand_shift n + 52) \<le> n"
proof -
  have "\<not> significand_shift n \<le> significand_shift n - 1" using assms by simp
  then have "\<not> n < 2 ^ (significand_shift n - 1 + 53)"
    using significand_shift_le_iff [of n "significand_shift n - 1"] by blast
  moreover have "significand_shift n - 1 + 53 = significand_shift n + 52" using assms by simp
  ultimately have "\<not> n < 2 ^ (significand_shift n + 52)" by metis
  then show ?thesis by (simp only: not_less)
qed

lemma significand_shift_mono:
  assumes "n1 \<le> n2"
  shows "significand_shift n1 \<le> significand_shift n2"
  using assms significand_shift_upper [of n2]
  by (simp add: significand_shift_le_iff)

lemma round_double_pos: "0 < n \<Longrightarrow> round_double n = round_to_grid (significand_shift n) n"
  by (simp add: round_double_def)

lemma round_to_grid_nonneg: "0 \<le> n \<Longrightarrow> 0 \<le> round_to_grid s n"
  using round_to_grid_ge [of 0 s n] by simp

lemma round_double_nonneg: "0 \<le> n \<Longrightarrow> 0 \<le> round_double n"
  by (cases "n = 0") (simp_all add: round_double_def round_to_grid_nonneg)

lemma power_mod_power: "k \<le> j \<Longrightarrow> (2::int) ^ j mod 2 ^ k = 0"
  by (simp add: le_imp_power_dvd)

lemma round_double_mono:
  assumes "0 \<le> n1" and "n1 \<le> n2"
  shows "round_double n1 \<le> round_double n2"
proof (cases "n1 = 0")
  case True
  then show ?thesis using assms round_double_nonneg [of n2] by (simp add: round_double_def)
next
  case False
  then have pos: "0 < n1" "0 < n2" using assms by simp_all
  let ?s1 = "significand_shift n1" and ?s2 = "significand_shift n2"
  have le: "?s1 \<le> ?s2" using assms(2) by (rule significand_shift_mono)
  show ?thesis
  proof (cases "?s1 = ?s2")
    case True
    then show ?thesis using pos assms(2) by (simp add: round_double_pos round_to_grid_mono)
  next
    case False
    then have lt: "?s1 < ?s2" using le by simp
    have "round_to_grid ?s1 n1 \<le> 2 ^ (?s1 + 53)"
      using significand_shift_upper [of n1]
      by (intro round_to_grid_le power_mod_power) simp_all
    also have "(2::int) ^ (?s1 + 53) \<le> 2 ^ (?s2 + 52)"
      using lt by (intro power_increasing) simp_all
    also have "\<dots> \<le> round_to_grid ?s2 n2"
      using significand_shift_lower [of n2] lt
      by (intro round_to_grid_ge power_mod_power) simp_all
    finally show ?thesis using pos by (simp add: round_double_pos)
  qed
qed

section \<open>The thirty percent\<close>

lemma thirtyPercent_div: "thirtyPercent L = - (- round_double (5404319552844595 * L) div 2 ^ 54)"
proof -
  have "(2::rat) ^ 54 = of_int (2 ^ 54)" by simp
  then show ?thesis
    unfolding thirtyPercent_def Math_ceil_def times_0_3_def
    by (simp only: ceiling_divide_eq_div)
qed


lemma thirtyPercent_mono:
  assumes "0 \<le> L1" and "L1 \<le> L2"
  shows "thirtyPercent L1 \<le> thirtyPercent L2"
proof -
  have "round_double (5404319552844595 * L1) \<le> round_double (5404319552844595 * L2)"
    using assms by (intro round_double_mono) simp_all
  then have "times_0_3 L1 \<le> times_0_3 L2"
    unfolding times_0_3_def by (intro divide_right_mono) simp_all
  then show ?thesis
    unfolding thirtyPercent_def Math_ceil_def by (rule ceiling_mono)
qed

lemma thirtyPercent_nonneg:
  assumes "0 \<le> L"
  shows "0 \<le> thirtyPercent L"
proof -
  have "0 \<le> round_double (5404319552844595 * L)"
    using assms by (intro round_double_nonneg) simp
  then have "0 \<le> times_0_3 L"
    unfolding times_0_3_def by simp
  then show ?thesis
    unfolding thirtyPercent_def Math_ceil_def by simp
qed

lemma round_double_relative_error:
  assumes "0 < n"
  shows "9007199254740992 * round_double n \<le> 9007199254740993 * n"
proof -
  let ?s = "significand_shift n"
  have err: "2 * \<bar>round_to_grid ?s n - n\<bar> \<le> 2 ^ ?s" by (rule round_to_grid_error)
  show ?thesis
  proof (cases "?s = 0")
    case True
    then have "round_to_grid ?s n = n" by (simp add: round_to_grid_exact)
    then show ?thesis using assms by (simp add: round_double_pos)
  next
    case False
    then have "(2::int) ^ (?s + 52) \<le> n" by (intro significand_shift_lower) simp
    then have "4503599627370496 * (2::int) ^ ?s \<le> n" by (simp add: power_add)
    moreover have "4503599627370496 * d \<le> n \<Longrightarrow> 2 * \<bar>e\<bar> \<le> d \<Longrightarrow> e = R - n
        \<Longrightarrow> 9007199254740992 * R \<le> 9007199254740993 * n" for R d e :: int
      by linarith
    ultimately have "9007199254740992 * round_to_grid ?s n \<le> 9007199254740993 * n"
      using err by blast
    then show ?thesis using assms by (simp only: round_double_pos)
  qed
qed

lemma thirtyPercent_le:
  assumes "0 \<le> L"
  shows "thirtyPercent L \<le> L"
proof (cases "L = 0")
  case True
  then show ?thesis by (simp add: thirtyPercent_div round_double_def)
next
  case False
  then have "0 < 5404319552844595 * L" using assms by simp
  then have "9007199254740992 * round_double (5404319552844595 * L)
      \<le> 9007199254740993 * (5404319552844595 * L)"
    by (rule round_double_relative_error)
  then have "round_double (5404319552844595 * L) \<le> L * 2 ^ 54"
    using assms by simp
  then have "times_0_3 L \<le> of_int L"
    unfolding times_0_3_def by (simp add: divide_le_eq flip: of_int_le_iff [where 'a = rat])
  then show ?thesis
    unfolding thirtyPercent_def Math_ceil_def by (simp add: ceiling_le_iff)
qed



lemma thirtyPercent_7: "thirtyPercent 7 = 3"
  by code_simp

lemma thirtyPercent_large: "thirtyPercent 3377699720527877 = 1013309916158363"
  by code_simp


section \<open>The operations of the explorer\<close>

lemma scan_definitions_sent: "sent (snd (scan_definitions this currency ds)) = sent this"
  by (induction ds) (simp_all add: Let_def)

lemma scan_definitions_own:
  "this_mosaicParameters (snd (scan_definitions this currency ds)) = this_mosaicParameters this"
  by (induction ds) (simp_all add: Let_def)


lemma getCurrency_undefined:
  assumes "this_mosaicParameters this = None"
  shows "getCurrency this currency = (Inl TypeError, this)"
  using assms by (simp add: getCurrency_def)

lemma getCurrency_new: "getCurrency (DIMExplorer_new nis ps) currency = (Inl TypeError, DIMExplorer_new nis ps)"
  by (rule getCurrency_undefined) (simp add: DIMExplorer_new_def)

lemma getTotalCirculatingSupply_undefined:
  assumes "this_mosaicParameters self = None"
  shows "getTotalCirculatingSupply self currency = (Inl TypeError, self)"
  using assms by (simp add: getTotalCirculatingSupply_def getCurrency_undefined)


lemma getCurrency_rejected:
  assumes "this_mosaicParameters this = Some own" and "own currency = None"
    and "mosaicDefinitions (api this) (sent this) (replace_pattern group1 currency) = Inl reason"
  shows "getCurrency this currency =
    (Inl (Rejected reason),
     this\<lparr>sent := sent this @ [MosaicDefinitions (replace_pattern group1 currency)]\<rparr>)"
  using assms by (simp add: getCurrency_def Let_def)

lemma getCurrency_sent:
  "sent (snd (getCurrency this currency)) = sent this \<or>
   sent (snd (getCurrency this currency)) =
     sent this @ [MosaicDefinitions (replace_pattern group1 currency)]"
  by (simp add: getCurrency_def Let_def scan_definitions_sent split: option.splits sum.splits)

lemma getCurrency_own:
  "this_mosaicParameters (snd (getCurrency this currency)) = this_mosaicParameters this"
  by (simp add: getCurrency_def Let_def scan_definitions_own split: option.splits sum.splits)


lemma scan_mosaics_find:
  "scan_mosaics bs =
     (case find (\<lambda>b. mosaicIdToName (mosaicId b) = ''dim:coin'') bs of
        None \<Rightarrow> 0 | Some b \<Rightarrow> quantity b)"
  by (induction bs) simp_all

lemma scan_mosaics_none:
  assumes "\<forall>b \<in> set bs. mosaicIdToName (mosaicId b) \<noteq> ''dim:coin''"
  shows "scan_mosaics bs = 0"
  using assms by (induction bs) simp_all

lemma getTotalAvailableLevyAmount_resolved:
  assumes "mosaicParameters (parameters self) ''dim:coin'' = Some coin"
    and "levy coin = Some l"
    and "owned (api self) (sent self) (recipient l) = Inr response"
  shows "getTotalAvailableLevyAmount self =
    (Inr (scan_mosaics (data_or_empty response)),
     self\<lparr>sent := sent self @ [AccountMosaicsOwned (recipient l)]\<rparr>)"
  using assms by (simp add: getTotalAvailableLevyAmount_def Let_def)

lemma getTotalAvailableLevyAmount_rejected:
  assumes "mosaicParameters (parameters self) ''dim:coin'' = Some coin"
    and "levy coin = Some l"
    and "owned (api self) (sent self) (recipient l) = Inl reason"
  shows "getTotalAvailableLevyAmount self =
    (Inl (Rejected reason), self\<lparr>sent := sent self @ [AccountMosaicsOwned (recipient l)]\<rparr>)"
  using assms by (simp add: getTotalAvailableLevyAmount_def Let_def)



lemma getTotalHoldersShareLevyAmount_snd:
  "snd (getTotalHoldersShareLevyAmount self) = snd (getTotalAvailableLevyAmount self)"
  by (simp add: getTotalHoldersShareLevyAmount_def split: prod.splits sum.splits)

lemma getTotalHoldersShareLevyAmount_amount:
  assumes "getTotalAvailableLevyAmount self = (Inr L, self')"
  shows "getTotalHoldersShareLevyAmount self = (Inr (thirtyPercent L), self')"
  using assms by (simp add: getTotalHoldersShareLevyAmount_def)

lemma getTotalHoldersShareLevyAmount_error:
  assumes "getTotalAvailableLevyAmount self = (Inl e, self')"
  shows "getTotalHoldersShareLevyAmount self = (Inl e, self')"
  using assms by (simp add: getTotalHoldersShareLevyAmount_def)



lemma replace_dim_coin: "replace_pattern group1 ''dim:coin'' = ''dim''"
  by code_simp

lemma coin_name: "mosaicIdToName coin_id = ''dim:coin''"
  by (simp add: mosaicIdToName_def coin_id_def)

lemma token_name: "mosaicIdToName token_id = ''dim:token''"
  by (simp add: mosaicIdToName_def token_id_def)

lemma fresh_explorer_fields:
  "this_mosaicParameters (fresh_explorer bs) = None"
  "mosaicParameters (parameters (fresh_explorer bs)) ''dim:coin'' = Some coin_definition"
  "levy coin_definition = Some coin_levy"
  "owned (api (fresh_explorer bs)) (sent (fresh_explorer bs)) (recipient coin_levy) = Inr \<lparr>data = Some bs\<rparr>"
  "sent (fresh_explorer bs) = []"
  by (simp_all add: fresh_explorer_def DIMExplorer_new_def example_parameters_def
      coin_definition_def example_node_def)

lemma replace_dim_token: "replace_pattern group1 ''dim:token'' = ''dim''"
  by code_simp

lemma assigned_explorer_fields:
  "this_mosaicParameters (assigned_explorer nis) = Some Map.empty"
  "api (assigned_explorer nis) = nis"
  "sent (assigned_explorer nis) = []"
  by (simp_all add: assigned_explorer_def DIMExplorer_new_def)

lemma rejecting_explorer_fields:
  "mosaicParameters (parameters (DIMExplorer_new (rejecting_node r) example_parameters)) ''dim:coin''
     = Some coin_definition"
  "owned (api (DIMExplorer_new (rejecting_node r) example_parameters))
     (sent (DIMExplorer_new (rejecting_node r) example_parameters)) (recipient coin_levy) = Inl r"
  "sent (DIMExplorer_new (rejecting_node r) example_parameters) = []"
  by (simp_all add: DIMExplorer_new_def example_parameters_def rejecting_node_def)

lemma dataless_explorer_fields:
  "this_mosaicParameters (DIMExplorer_new dataless_node example_parameters) = None"
  "mosaicParameters (parameters (DIMExplorer_new dataless_node example_parameters)) ''dim:coin''
     = Some coin_definition"
  "owned (api (DIMExplorer_new dataless_node example_parameters))
     (sent (DIMExplorer_new dataless_node example_parameters)) (recipient coin_levy)
     = Inr \<lparr>data = None\<rparr>"
  "mosaicDefinitions (api (DIMExplorer_new dataless_node example_parameters))
     (sent (DIMExplorer_new dataless_node example_parameters)) ''dim'' = Inr \<lparr>data = None\<rparr>"
  by (simp_all add: DIMExplorer_new_def example_parameters_def dataless_node_def)

lemma getCurrency_one_request:
  "length (sent (snd (getCurrency self currency))) \<le> Suc (length (sent self))"
  using getCurrency_sent [of self currency] by auto

lemma getTotalAvailableLevyAmount_one_request:
  "length (sent (snd (getTotalAvailableLevyAmount self))) \<le> Suc (length (sent self))"
  by (simp add: getTotalAvailableLevyAmount_def Let_def split: option.splits sum.splits)

lemma getTotalCirculatingSupply_snd:
  "snd (getTotalCirculatingSupply self currency) = snd (getCurrency self currency)"
  by (simp add: getTotalCirculatingSupply_def split: prod.splits sum.splits option.splits)




section \<open>The claims\<close>

text \<open>
  C1. Resolving the same identifier twice should return the cached definition and query the
  node once. The lookup at the head of \<^verbatim>\<open>getCurrency\<close> reads \<^verbatim>\<open>this.mosaicParameters\<close>,
  which the constructor never assigns (the cache is \<^verbatim>\<open>this.parameters.mosaicParameters\<close>, as
  the store at the end of the loop and \<^verbatim>\<open>getTotalAvailableLevyAmount\<close> have it). On the
  explorer as constructed, with \<^verbatim>\<open>dim:coin\<close> in the cache, both calls are rejected with a
  \<^verbatim>\<open>TypeError\<close> and no request is sent.
\<close>

theorem getCurrency_twice_fails:
  "mosaicParameters (parameters (fresh_explorer [])) ''dim:coin'' = Some coin_definition \<and>
   getCurrency (fresh_explorer []) ''dim:coin'' = (Inl TypeError, fresh_explorer []) \<and>
   getCurrency (snd (getCurrency (fresh_explorer []) ''dim:coin'')) ''dim:coin''
     = (Inl TypeError, fresh_explorer []) \<and>
   sent (snd (getCurrency (snd (getCurrency (fresh_explorer []) ''dim:coin'')) ''dim:coin'')) = []"
  by (simp add: fresh_explorer_fields getCurrency_undefined)

text \<open>
  C3. \<^verbatim>\<open>getTotalAvailableLevyAmount\<close> reads the levy recipient of \<^verbatim>\<open>dim:coin\<close> from the
  cache of the parameters object, asks the node for the balances of that account (one
  request), and returns the quantity of the first balance whose formatted id is
  \<^verbatim>\<open>dim:coin\<close>; with no such balance, the empty list included, it returns 0.
\<close>

theorem getTotalAvailableLevyAmount_scan:
  assumes "mosaicParameters (parameters self) ''dim:coin'' = Some coin"
    and "levy coin = Some l"
    and "owned (api self) (sent self) (recipient l) = Inr response"
  shows "getTotalAvailableLevyAmount self =
      (Inr (case find (\<lambda>b. mosaicIdToName (mosaicId b) = ''dim:coin'') (data_or_empty response) of
              None \<Rightarrow> 0 | Some b \<Rightarrow> quantity b),
       self\<lparr>sent := sent self @ [AccountMosaicsOwned (recipient l)]\<rparr>) \<and>
    ((\<forall>b \<in> set (data_or_empty response). mosaicIdToName (mosaicId b) \<noteq> ''dim:coin'')
      \<longrightarrow> fst (getTotalAvailableLevyAmount self) = Inr 0)"
  using getTotalAvailableLevyAmount_resolved [OF assms]
  by (simp add: scan_mosaics_none) (simp add: scan_mosaics_find)

theorem getTotalAvailableLevyAmount_scan_witness:
  "fst (getTotalAvailableLevyAmount
      (fresh_explorer [\<lparr>mosaicId = token_id, quantity = 5\<rparr>, \<lparr>mosaicId = coin_id, quantity = 1000000\<rparr>]))
     = Inr 1000000 \<and>
   fst (getTotalAvailableLevyAmount (fresh_explorer [\<lparr>mosaicId = token_id, quantity = 5\<rparr>])) = Inr 0 \<and>
   fst (getTotalAvailableLevyAmount (fresh_explorer [])) = Inr 0"
proof -
  let ?bs = "[\<lparr>mosaicId = token_id, quantity = 5\<rparr>, \<lparr>mosaicId = coin_id, quantity = 1000000\<rparr>]"
  let ?ts = "[\<lparr>mosaicId = token_id, quantity = 5\<rparr>]"
  have none: "\<forall>b \<in> set (data_or_empty \<lparr>data = Some ?ts\<rparr>). mosaicIdToName (mosaicId b) \<noteq> ''dim:coin''"
    by (simp add: data_or_empty_def token_name)
  have empty: "\<forall>b \<in> set (data_or_empty \<lparr>data = Some ([] :: ownedMosaic list)\<rparr>).
      mosaicIdToName (mosaicId b) \<noteq> ''dim:coin''"
    by (simp add: data_or_empty_def)
  have "fst (getTotalAvailableLevyAmount (fresh_explorer ?bs)) = Inr 1000000"
    using getTotalAvailableLevyAmount_scan [OF fresh_explorer_fields(2,3,4), of ?bs]
    by (simp add: data_or_empty_def token_name coin_name)
  moreover have "fst (getTotalAvailableLevyAmount (fresh_explorer ?ts)) = Inr 0"
    using getTotalAvailableLevyAmount_scan [OF fresh_explorer_fields(2,3,4), of ?ts] none
    by blast
  moreover have "fst (getTotalAvailableLevyAmount (fresh_explorer [])) = Inr 0"
    using getTotalAvailableLevyAmount_scan [OF fresh_explorer_fields(2,3,4), of "[]"] empty
    by blast
  ultimately show ?thesis by simp
qed




text \<open>
  C4. \<^verbatim>\<open>getTotalCirculatingSupply\<close> should return 0 for an identifier with no definition
  and the total supply of the definition otherwise. On the explorer as constructed, with a
  node whose namespace \<^verbatim>\<open>dim\<close> holds \<^verbatim>\<open>dim:coin\<close> and no \<^verbatim>\<open>dim:token\<close>, it is rejected
  with a \<^verbatim>\<open>TypeError\<close> for both identifiers, by the lookup at the head of
  \<^verbatim>\<open>getCurrency\<close>.
\<close>

theorem getTotalCirculatingSupply_fails:
  "mosaicDefinitions (api (fresh_explorer [])) (sent (fresh_explorer [])) ''dim''
     = Inr \<lparr>data = Some [coin_raw]\<rparr> \<and>
   mosaicIdToName (id_md coin_raw) = ''dim:coin'' \<and>
   getTotalCirculatingSupply (fresh_explorer []) ''dim:token'' = (Inl TypeError, fresh_explorer []) \<and>
   getTotalCirculatingSupply (fresh_explorer []) ''dim:coin'' = (Inl TypeError, fresh_explorer [])"
  by (simp add: getTotalCirculatingSupply_undefined fresh_explorer_fields)
    (simp add: fresh_explorer_def DIMExplorer_new_def example_node_def coin_raw_def coin_name)




text \<open>
  C6. With no definition of the requested name among those of the namespace,
  \<^verbatim>\<open>getCurrency\<close> should return \<^verbatim>\<open>null\<close>. On the explorer as constructed, with a node
  whose namespace \<^verbatim>\<open>dim\<close> holds no \<^verbatim>\<open>dim:token\<close>, the call for \<^verbatim>\<open>dim:token\<close> is rejected
  with a \<^verbatim>\<open>TypeError\<close>. (Past the lookup the loop does return \<^verbatim>\<open>null\<close>: lemma
  \<open>getCurrency_no_match\<close>.)
\<close>

theorem getCurrency_unknown_fails:
  "mosaicDefinitions (api (fresh_explorer [])) (sent (fresh_explorer [])) ''dim''
     = Inr \<lparr>data = Some [coin_raw]\<rparr> \<and>
   mosaicIdToName (id_md coin_raw) \<noteq> ''dim:token'' \<and>
   fst (getCurrency (fresh_explorer []) ''dim:token'') = Inl TypeError \<and>
   fst (getCurrency (fresh_explorer []) ''dim:token'') \<noteq> Inr None"
  by (simp add: getCurrency_undefined fresh_explorer_fields coin_name)
    (simp add: fresh_explorer_def DIMExplorer_new_def example_node_def coin_raw_def coin_name)

text \<open>
  C7. Whenever one of the four operations has sent a request that the node rejected, the
  operation is rejected with the reason the node gave, not with 0 or \<^verbatim>\<open>null\<close>; and no
  operation sends more than one request, so none retries.
\<close>

theorem rejection_propagates:
  "(sent (snd (getCurrency self currency)) = sent self @ [MosaicDefinitions ns] \<longrightarrow>
      mosaicDefinitions (api self) (sent self) ns = Inl reason \<longrightarrow>
      fst (getCurrency self currency) = Inl (Rejected reason) \<and>
      fst (getTotalCirculatingSupply self currency) = Inl (Rejected reason)) \<and>
   (sent (snd (getTotalAvailableLevyAmount self)) = sent self @ [AccountMosaicsOwned address] \<longrightarrow>
      owned (api self) (sent self) address = Inl reason \<longrightarrow>
      fst (getTotalAvailableLevyAmount self) = Inl (Rejected reason) \<and>
      fst (getTotalHoldersShareLevyAmount self) = Inl (Rejected reason)) \<and>
   length (sent (snd (getCurrency self currency))) \<le> Suc (length (sent self)) \<and>
   length (sent (snd (getTotalCirculatingSupply self currency))) \<le> Suc (length (sent self)) \<and>
   length (sent (snd (getTotalAvailableLevyAmount self))) \<le> Suc (length (sent self)) \<and>
   length (sent (snd (getTotalHoldersShareLevyAmount self))) \<le> Suc (length (sent self))"
proof -
  have from_currency: "fst (getCurrency self currency) = Inl (Rejected reason)"
    if "sent (snd (getCurrency self currency)) = sent self @ [MosaicDefinitions ns]"
      and "mosaicDefinitions (api self) (sent self) ns = Inl reason"
    using that
    by (auto simp add: getCurrency_def Let_def scan_definitions_sent
        split: option.splits sum.splits)
  have from_supply: "fst (getTotalCirculatingSupply self currency) = Inl (Rejected reason)"
    if "fst (getCurrency self currency) = Inl (Rejected reason)"
    using that
    by (auto simp add: getTotalCirculatingSupply_def split: prod.splits sum.splits option.splits)
  have from_available: "fst (getTotalAvailableLevyAmount self) = Inl (Rejected reason)"
    if "sent (snd (getTotalAvailableLevyAmount self)) = sent self @ [AccountMosaicsOwned address]"
      and "owned (api self) (sent self) address = Inl reason"
    using that
    by (auto simp add: getTotalAvailableLevyAmount_def Let_def split: option.splits sum.splits)
  have from_share: "fst (getTotalHoldersShareLevyAmount self) = Inl (Rejected reason)"
    if "fst (getTotalAvailableLevyAmount self) = Inl (Rejected reason)"
    using that
    by (auto simp add: getTotalHoldersShareLevyAmount_def split: prod.splits sum.splits)
  show ?thesis
    using from_currency from_supply from_available from_share
    by (simp add: getCurrency_one_request getTotalAvailableLevyAmount_one_request
        getTotalCirculatingSupply_snd getTotalHoldersShareLevyAmount_snd)
qed

theorem rejection_propagates_witness:
  "fst (getCurrency (assigned_explorer (rejecting_node ''timeout'')) ''dim:coin'')
     = Inl (Rejected ''timeout'') \<and>
   fst (getTotalCirculatingSupply (assigned_explorer (rejecting_node ''timeout'')) ''dim:coin'')
     = Inl (Rejected ''timeout'') \<and>
   fst (getTotalAvailableLevyAmount (DIMExplorer_new (rejecting_node ''timeout'') example_parameters))
     = Inl (Rejected ''timeout'') \<and>
   fst (getTotalHoldersShareLevyAmount (DIMExplorer_new (rejecting_node ''timeout'') example_parameters))
     = Inl (Rejected ''timeout'')"
proof -
  let ?a = "assigned_explorer (rejecting_node ''timeout'')"
  let ?n = "DIMExplorer_new (rejecting_node ''timeout'') example_parameters"
  have r1: "mosaicDefinitions (api ?a) (sent ?a) ''dim'' = Inl ''timeout''"
    by (simp add: assigned_explorer_fields rejecting_node_def)
  have "getCurrency ?a ''dim:coin'' = (Inl (Rejected ''timeout''), ?a\<lparr>sent := sent ?a @ [MosaicDefinitions ''dim'']\<rparr>)"
    using getCurrency_rejected [where this = ?a and currency = "''dim:coin''" and reason = "''timeout''",
        OF assigned_explorer_fields(1)] r1
    by (simp add: replace_dim_coin)
  then have s1: "sent (snd (getCurrency ?a ''dim:coin'')) = sent ?a @ [MosaicDefinitions ''dim'']"
    by simp
  have "getTotalAvailableLevyAmount ?n =
      (Inl (Rejected ''timeout''), ?n\<lparr>sent := sent ?n @ [AccountMosaicsOwned (recipient coin_levy)]\<rparr>)"
    by (rule getTotalAvailableLevyAmount_rejected
        [OF rejecting_explorer_fields(1) fresh_explorer_fields(3) rejecting_explorer_fields(2)])
  then have s2: "sent (snd (getTotalAvailableLevyAmount ?n)) = sent ?n @ [AccountMosaicsOwned (recipient coin_levy)]"
    by simp
  from rejection_propagates
      [where self = ?a and currency = "''dim:coin''" and ns = "''dim''" and reason = "''timeout''"] s1 r1
  have "fst (getCurrency ?a ''dim:coin'') = Inl (Rejected ''timeout'') \<and>
      fst (getTotalCirculatingSupply ?a ''dim:coin'') = Inl (Rejected ''timeout'')"
    by blast
  moreover from rejection_propagates
      [where self = ?n and reason = "''timeout''" and address = "recipient coin_levy"] s2
    rejecting_explorer_fields(2) [of "''timeout''"]
  have "fst (getTotalAvailableLevyAmount ?n) = Inl (Rejected ''timeout'') \<and>
      fst (getTotalHoldersShareLevyAmount ?n) = Inl (Rejected ''timeout'')"
    by blast
  ultimately show ?thesis by simp
qed


text \<open>
  C9. On a response without a \<^verbatim>\<open>data\<close> field, \<^verbatim>\<open>getCurrency\<close> should return the empty
  result and \<^verbatim>\<open>getTotalAvailableLevyAmount\<close> should return 0. With a node that answers
  every request that way, \<^verbatim>\<open>getTotalAvailableLevyAmount\<close> returns 0, and \<^verbatim>\<open>getCurrency\<close>
  on the explorer as constructed is rejected with a \<^verbatim>\<open>TypeError\<close> before it asks.
\<close>

theorem dataless_response_getCurrency_fails:
  "mosaicDefinitions (api (DIMExplorer_new dataless_node example_parameters))
     (sent (DIMExplorer_new dataless_node example_parameters)) ''dim'' = Inr \<lparr>data = None\<rparr> \<and>
   fst (getCurrency (DIMExplorer_new dataless_node example_parameters) ''dim:coin'') = Inl TypeError \<and>
   fst (getTotalAvailableLevyAmount (DIMExplorer_new dataless_node example_parameters)) = Inr 0"
  using getTotalAvailableLevyAmount_resolved
    [OF dataless_explorer_fields(2) fresh_explorer_fields(3) dataless_explorer_fields(3)]
  by (simp add: getCurrency_new dataless_explorer_fields(4) data_or_empty_def)

text \<open>
  C10. For amounts \<open>0 \<le> L1 \<le> L2\<close> that \<^verbatim>\<open>getTotalAvailableLevyAmount\<close> returns, the
  holder shares computed from them lie between 0 and the amount, and the share of \<open>L1\<close>
  is at most the share of \<open>L2\<close>. This holds for the double arithmetic at every size.
\<close>

theorem holders_share_bounded_monotone:
  assumes "getTotalAvailableLevyAmount s1 = (Inr L1, s1')"
    and "getTotalAvailableLevyAmount s2 = (Inr L2, s2')"
    and "0 \<le> L1" and "L1 \<le> L2"
  shows "getTotalHoldersShareLevyAmount s1 = (Inr (thirtyPercent L1), s1') \<and>
    getTotalHoldersShareLevyAmount s2 = (Inr (thirtyPercent L2), s2') \<and>
    0 \<le> thirtyPercent L1 \<and> thirtyPercent L1 \<le> L1 \<and>
    0 \<le> thirtyPercent L2 \<and> thirtyPercent L2 \<le> L2 \<and>
    thirtyPercent L1 \<le> thirtyPercent L2"
proof -
  have "0 \<le> L2" using assms(3,4) by simp
  then show ?thesis
    using assms(3,4) getTotalHoldersShareLevyAmount_amount [OF assms(1)]
      getTotalHoldersShareLevyAmount_amount [OF assms(2)]
    by (simp add: thirtyPercent_nonneg thirtyPercent_le thirtyPercent_mono)
qed

theorem holders_share_bounded_monotone_witness:
  "fst (getTotalHoldersShareLevyAmount (fresh_explorer [\<lparr>mosaicId = coin_id, quantity = 7\<rparr>])) = Inr 3 \<and>
   fst (getTotalHoldersShareLevyAmount
      (fresh_explorer [\<lparr>mosaicId = coin_id, quantity = 3377699720527877\<rparr>])) = Inr 1013309916158363 \<and>
   (0::int) \<le> 3 \<and> (3::int) \<le> 7 \<and> (3::int) \<le> 1013309916158363 \<and>
   (1013309916158363::int) \<le> 3377699720527877"
proof -
  let ?e1 = "fresh_explorer [\<lparr>mosaicId = coin_id, quantity = 7\<rparr>]"
  let ?e2 = "fresh_explorer [\<lparr>mosaicId = coin_id, quantity = 3377699720527877\<rparr>]"
  have a1: "getTotalAvailableLevyAmount ?e1 =
      (Inr 7, ?e1\<lparr>sent := [AccountMosaicsOwned (recipient coin_levy)]\<rparr>)"
    using getTotalAvailableLevyAmount_resolved [OF fresh_explorer_fields(2,3,4), of "[\<lparr>mosaicId = coin_id, quantity = 7\<rparr>]"]
    by (simp add: data_or_empty_def coin_name fresh_explorer_fields(5))
  have a2: "getTotalAvailableLevyAmount ?e2 =
      (Inr 3377699720527877, ?e2\<lparr>sent := [AccountMosaicsOwned (recipient coin_levy)]\<rparr>)"
    using getTotalAvailableLevyAmount_resolved [OF fresh_explorer_fields(2,3,4), of "[\<lparr>mosaicId = coin_id, quantity = 3377699720527877\<rparr>]"]
    by (simp add: data_or_empty_def coin_name fresh_explorer_fields(5))
  have b: "(0::int) \<le> 7" "(7::int) \<le> 3377699720527877" by simp_all
  from holders_share_bounded_monotone [OF a1 a2 b]
  show ?thesis by (simp add: thirtyPercent_7 thirtyPercent_large)
qed

end
